theory Spec2Isabelle
  imports Main
begin

section \<open>Data model of the migration\<close>

text \<open>
  The schema of \<^verbatim>\<open>20251024060052_create_admin_user_management_system.sql\<close>: four tables
  with row level security, two trigger functions, and the client operation
  \<^verbatim>\<open>handleSave\<close> of \<^verbatim>\<open>MenuAccessModal.tsx\<close>.  A table is the list of its stored rows.
  A nullable column is an \<open>option\<close> (\<open>None\<close> is SQL NULL); a column declared
  \<^verbatim>\<open>NOT NULL\<close> (or a primary key) is a plain value.

  A statement of a session is first expanded with the policies that apply to it; the
  database engine refuses a statement whose expansion meets a table again inside that
  table's own policies.  Only a statement that is not refused evaluates its policy
  predicates, and a sub-select inside a predicate then reads the stored table.
\<close>

type_synonym uuid = nat
type_synonym timestamptz = int

text \<open>
  A jsonb object, as far as the operator \<^verbatim>\<open>->>\<close> can tell: each key holds JSON null or a
  value with a text rendering (for a JSON string, the string itself).  A stored jsonb
  object holds each key once.
\<close>

datatype jsonb_value = JNull | JText string

type_synonym jsonb = "(string \<times> jsonb_value) list"

text \<open>
  Modelled from the spec: the identity provider's table \<^verbatim>\<open>auth.users\<close> is referenced by
  the migration but declared outside the repository.  An identity carries an id, an
  email and optional metadata (\<^verbatim>\<open>raw_user_meta_data\<close>).
\<close>

record auth_user =
  au_id :: uuid
  au_email :: string
  raw_user_meta_data :: "jsonb option"

text \<open>The column \<^verbatim>\<open>updated_at\<close>, shared by the tables that carry the timestamp trigger.\<close>

record updated_at_row =
  updated_at :: "timestamptz option"

record profile = updated_at_row +
  p_id :: uuid
  p_email :: string
  p_full_name :: string
  p_role :: string
  p_is_active :: "bool option"
  p_avatar_url :: "string option"
  p_created_at :: "timestamptz option"

record menu = updated_at_row +
  m_id :: uuid
  m_name :: string
  m_description :: "string option"
  m_icon :: string
  m_route :: string
  m_order_index :: int
  m_is_active :: "bool option"
  m_created_by :: "uuid option"
  m_created_at :: "timestamptz option"

record user_menu =
  um_id :: uuid
  um_user_id :: uuid
  um_menu_id :: uuid
  um_granted_by :: "uuid option"
  um_granted_at :: "timestamptz option"

record activity_log =
  al_id :: uuid
  al_user_id :: "uuid option"
  al_action :: string
  al_entity_type :: string
  al_entity_id :: "uuid option"
  al_details :: "jsonb option"
  al_ip_address :: "string option"
  al_created_at :: "timestamptz option"

record database =
  auth_users :: "auth_user list"
  profiles :: "profile list"
  menus :: "menu list"
  user_menus :: "user_menu list"
  activity_logs :: "activity_log list"

text \<open>
  The errors a statement can raise: a row rejected by the policies (42501), a violated
  unique index, foreign key or CHECK constraint, and a statement refused because its
  policies are recursive (42P17).  A statement that raises leaves the stored tables as
  they were: \<open>commit\<close> gives the stored database after an attempt.
\<close>

datatype error =
  RlsViolation
  | UniqueViolation
  | ForeignKeyViolation
  | CheckViolation
  | InfiniteRecursion

definition commit :: "database \<Rightarrow> error + database \<Rightarrow> database" where
  "commit db r = (case r of Inl e \<Rightarrow> db | Inr db' \<Rightarrow> db')"

subsection \<open>SQL's three-valued logic\<close>

type_synonym sql_bool = "bool option"

definition sql_eq :: "'a option \<Rightarrow> 'a option \<Rightarrow> sql_bool" where
  "sql_eq a b = (case a of None \<Rightarrow> None | Some x \<Rightarrow> (case b of None \<Rightarrow> None | Some y \<Rightarrow> Some (x = y)))"

definition sql_and :: "sql_bool \<Rightarrow> sql_bool \<Rightarrow> sql_bool" where
  "sql_and a b =
     (if a = Some False \<or> b = Some False then Some False
      else if a = None \<or> b = None then None
      else Some True)"

definition sql_exists :: "'a list \<Rightarrow> sql_bool" where
  "sql_exists rows = Some (rows \<noteq> [])"

text \<open>A \<^verbatim>\<open>WHERE\<close>, \<^verbatim>\<open>USING\<close> or \<^verbatim>\<open>WITH CHECK\<close> condition lets a row pass only when it is TRUE.\<close>

definition is_true :: "sql_bool \<Rightarrow> bool" where
  "is_true b = (b = Some True)"

text \<open>
  A scalar sub-select: NULL when no row qualifies.  The sub-selects of the migration
  filter on a primary key, so more than one row (an error in SQL) does not arise in a
  table that satisfies its key.
\<close>

definition scalar_subquery :: "'a option list \<Rightarrow> 'a option" where
  "scalar_subquery vs = (case vs of [] \<Rightarrow> None | v # _ \<Rightarrow> v)"

definition coalesce :: "'a option \<Rightarrow> 'a \<Rightarrow> 'a" where
  "coalesce a d = (case a of None \<Rightarrow> d | Some v \<Rightarrow> v)"

text \<open>The operator \<^verbatim>\<open>->>\<close>: the text of a key, NULL for a NULL document, a missing key or JSON null.\<close>

definition json_get_text :: "jsonb option \<Rightarrow> string \<Rightarrow> string option" where
  "json_get_text doc k =
     (case doc of
        None \<Rightarrow> None
      | Some obj \<Rightarrow> (case map_of obj k of None \<Rightarrow> None | Some JNull \<Rightarrow> None | Some (JText t) \<Rightarrow> Some t))"

subsection \<open>Sessions and policies\<close>

text \<open>
  A request runs as role \<^verbatim>\<open>authenticated\<close> with \<^verbatim>\<open>auth.uid()\<close> the caller's id, or as
  role \<^verbatim>\<open>anon\<close> with \<^verbatim>\<open>auth.uid()\<close> NULL.
\<close>

datatype session = Anon | Authenticated uuid

datatype db_role = anon | authenticated

fun role_of :: "session \<Rightarrow> db_role" where
  "role_of Anon = anon"
| "role_of (Authenticated u) = authenticated"

fun auth_uid :: "session \<Rightarrow> uuid option" where
  "auth_uid Anon = None"
| "auth_uid (Authenticated u) = Some u"

datatype command = SELECT | INSERT | UPDATE | DELETE

text \<open>The four tables of the migration, all with row level security enabled.\<close>

datatype relation = Profiles | Menus | User_menus | Activity_logs

text \<open>
  One \<^verbatim>\<open>CREATE POLICY\<close> statement: its command, its role, the tables that the
  sub-selects of its USING and WITH CHECK read (one entry per sub-select), and the two
  predicates.
\<close>

record 'r policy =
  pol_cmd :: command
  pol_to :: db_role
  pol_reads :: "relation list"
  pol_using :: "(session \<Rightarrow> database \<Rightarrow> 'r \<Rightarrow> sql_bool) option"
  pol_with_check :: "(session \<Rightarrow> database \<Rightarrow> 'r \<Rightarrow> sql_bool) option"

text \<open>
  Row level security is enabled on all four tables and every policy is permissive:
  a row passes when some policy of the command and role lets it pass, and no row
  passes when there is no such policy.
\<close>

definition using_ok :: "command \<Rightarrow> 'r policy list \<Rightarrow> session \<Rightarrow> database \<Rightarrow> 'r \<Rightarrow> bool" where
  "using_ok cmd ps s db r =
     (\<exists>p \<in> set ps. pol_cmd p = cmd \<and> pol_to p = role_of s \<and>
        (case pol_using p of None \<Rightarrow> True | Some u \<Rightarrow> is_true (u s db r)))"

definition check_ok :: "command \<Rightarrow> 'r policy list \<Rightarrow> session \<Rightarrow> database \<Rightarrow> 'r \<Rightarrow> bool" where
  "check_ok cmd ps s db r =
     (\<exists>p \<in> set ps. pol_cmd p = cmd \<and> pol_to p = role_of s \<and>
        (case pol_with_check p of
           Some c \<Rightarrow> is_true (c s db r)
         | None \<Rightarrow> (case pol_using p of None \<Rightarrow> True | Some u \<Rightarrow> is_true (u s db r))))"

text \<open>
  The sub-select every admin policy repeats:
  \<^verbatim>\<open>EXISTS (SELECT 1 FROM profiles WHERE profiles.id = auth.uid()
     AND profiles.role = 'admin' AND profiles.is_active = true)\<close>
\<close>

definition admin_exists :: "session \<Rightarrow> database \<Rightarrow> sql_bool" where
  "admin_exists s db =
     sql_exists (filter (\<lambda>p. is_true
        (sql_and (sql_eq (Some (p_id p)) (auth_uid s))
        (sql_and (sql_eq (Some (p_role p)) (Some ''admin''))
                 (sql_eq (p_is_active p) (Some True))))) (profiles db))"

subsection \<open>Policies on profiles\<close>

definition Users_can_view_own_profile :: "profile policy" where
  "Users_can_view_own_profile =
     \<lparr>pol_cmd = SELECT, pol_to = authenticated,
      pol_reads = [],
      pol_using = Some (\<lambda>s db r. sql_eq (auth_uid s) (Some (p_id r))),
      pol_with_check = None\<rparr>"

definition Admins_can_view_all_profiles :: "profile policy" where
  "Admins_can_view_all_profiles =
     \<lparr>pol_cmd = SELECT, pol_to = authenticated,
      pol_reads = [Profiles],
      pol_using = Some (\<lambda>s db r. admin_exists s db),
      pol_with_check = None\<rparr>"

definition Users_can_update_own_profile :: "profile policy" where
  "Users_can_update_own_profile =
     \<lparr>pol_cmd = UPDATE, pol_to = authenticated,
      pol_reads = [Profiles, Profiles],
      pol_using = Some (\<lambda>s db r. sql_eq (auth_uid s) (Some (p_id r))),
      pol_with_check = Some (\<lambda>s db r.
        sql_and (sql_eq (auth_uid s) (Some (p_id r)))
        (sql_and
          (sql_eq (Some (p_role r))
             (scalar_subquery (map (\<lambda>p. Some (p_role p))
                (filter (\<lambda>p. is_true (sql_eq (Some (p_id p)) (auth_uid s))) (profiles db)))))
          (sql_eq (p_is_active r)
             (scalar_subquery (map p_is_active
                (filter (\<lambda>p. is_true (sql_eq (Some (p_id p)) (auth_uid s))) (profiles db)))))))\<rparr>"

definition Admins_can_insert_profiles :: "profile policy" where
  "Admins_can_insert_profiles =
     \<lparr>pol_cmd = INSERT, pol_to = authenticated,
      pol_reads = [Profiles],
      pol_using = None,
      pol_with_check = Some (\<lambda>s db r. admin_exists s db)\<rparr>"

definition Admins_can_update_any_profile :: "profile policy" where
  "Admins_can_update_any_profile =
     \<lparr>pol_cmd = UPDATE, pol_to = authenticated,
      pol_reads = [Profiles, Profiles],
      pol_using = Some (\<lambda>s db r. admin_exists s db),
      pol_with_check = Some (\<lambda>s db r. admin_exists s db)\<rparr>"

definition profiles_policies :: "profile policy list" where
  "profiles_policies =
     [Users_can_view_own_profile, Admins_can_view_all_profiles, Users_can_update_own_profile,
      Admins_can_insert_profiles, Admins_can_update_any_profile]"

subsection \<open>Policies on menus\<close>

definition Admins_can_view_all_menus :: "menu policy" where
  "Admins_can_view_all_menus =
     \<lparr>pol_cmd = SELECT, pol_to = authenticated,
      pol_reads = [Profiles],
      pol_using = Some (\<lambda>s db r. admin_exists s db),
      pol_with_check = None\<rparr>"

definition Users_can_view_assigned_active_menus :: "menu policy" where
  "Users_can_view_assigned_active_menus =
     \<lparr>pol_cmd = SELECT, pol_to = authenticated,
      pol_reads = [User_menus],
      pol_using = Some (\<lambda>s db r.
        sql_and (sql_eq (m_is_active r) (Some True))
          (sql_exists (filter (\<lambda>g. is_true
             (sql_and (sql_eq (Some (um_user_id g)) (auth_uid s))
                      (sql_eq (Some (um_menu_id g)) (Some (m_id r))))) (user_menus db)))),
      pol_with_check = None\<rparr>"

definition Admins_can_insert_menus :: "menu policy" where
  "Admins_can_insert_menus =
     \<lparr>pol_cmd = INSERT, pol_to = authenticated,
      pol_reads = [Profiles],
      pol_using = None,
      pol_with_check = Some (\<lambda>s db r. admin_exists s db)\<rparr>"

definition Admins_can_update_menus :: "menu policy" where
  "Admins_can_update_menus =
     \<lparr>pol_cmd = UPDATE, pol_to = authenticated,
      pol_reads = [Profiles, Profiles],
      pol_using = Some (\<lambda>s db r. admin_exists s db),
      pol_with_check = Some (\<lambda>s db r. admin_exists s db)\<rparr>"

definition Admins_can_delete_menus :: "menu policy" where
  "Admins_can_delete_menus =
     \<lparr>pol_cmd = DELETE, pol_to = authenticated,
      pol_reads = [Profiles],
      pol_using = Some (\<lambda>s db r. admin_exists s db),
      pol_with_check = None\<rparr>"

definition menus_policies :: "menu policy list" where
  "menus_policies =
     [Admins_can_view_all_menus, Users_can_view_assigned_active_menus, Admins_can_insert_menus,
      Admins_can_update_menus, Admins_can_delete_menus]"

subsection \<open>Policies on user_menus\<close>

definition Admins_can_view_all_user_menu_assignments :: "user_menu policy" where
  "Admins_can_view_all_user_menu_assignments =
     \<lparr>pol_cmd = SELECT, pol_to = authenticated,
      pol_reads = [Profiles],
      pol_using = Some (\<lambda>s db r. admin_exists s db),
      pol_with_check = None\<rparr>"

definition Users_can_view_own_menu_assignments :: "user_menu policy" where
  "Users_can_view_own_menu_assignments =
     \<lparr>pol_cmd = SELECT, pol_to = authenticated,
      pol_reads = [],
      pol_using = Some (\<lambda>s db r. sql_eq (Some (um_user_id r)) (auth_uid s)),
      pol_with_check = None\<rparr>"

definition Admins_can_insert_user_menu_assignments :: "user_menu policy" where
  "Admins_can_insert_user_menu_assignments =
     \<lparr>pol_cmd = INSERT, pol_to = authenticated,
      pol_reads = [Profiles],
      pol_using = None,
      pol_with_check = Some (\<lambda>s db r. admin_exists s db)\<rparr>"

definition Admins_can_delete_user_menu_assignments :: "user_menu policy" where
  "Admins_can_delete_user_menu_assignments =
     \<lparr>pol_cmd = DELETE, pol_to = authenticated,
      pol_reads = [Profiles],
      pol_using = Some (\<lambda>s db r. admin_exists s db),
      pol_with_check = None\<rparr>"

definition user_menus_policies :: "user_menu policy list" where
  "user_menus_policies =
     [Admins_can_view_all_user_menu_assignments, Users_can_view_own_menu_assignments,
      Admins_can_insert_user_menu_assignments, Admins_can_delete_user_menu_assignments]"

subsection \<open>Policies on activity_logs\<close>

definition Authenticated_users_can_insert_logs :: "activity_log policy" where
  "Authenticated_users_can_insert_logs =
     \<lparr>pol_cmd = INSERT, pol_to = authenticated,
      pol_reads = [],
      pol_using = None,
      pol_with_check = Some (\<lambda>s db r. sql_eq (al_user_id r) (auth_uid s))\<rparr>"

definition Admins_can_view_all_logs :: "activity_log policy" where
  "Admins_can_view_all_logs =
     \<lparr>pol_cmd = SELECT, pol_to = authenticated,
      pol_reads = [Profiles],
      pol_using = Some (\<lambda>s db r. admin_exists s db),
      pol_with_check = None\<rparr>"

definition Users_can_view_own_logs :: "activity_log policy" where
  "Users_can_view_own_logs =
     \<lparr>pol_cmd = SELECT, pol_to = authenticated,
      pol_reads = [],
      pol_using = Some (\<lambda>s db r. sql_eq (al_user_id r) (auth_uid s)),
      pol_with_check = None\<rparr>"

definition activity_logs_policies :: "activity_log policy list" where
  "activity_logs_policies =
     [Authenticated_users_can_insert_logs, Admins_can_view_all_logs, Users_can_view_own_logs]"

section \<open>Statements\<close>

subsection \<open>Expansion of policies\<close>

text \<open>
  The tables that the policies of a table read in their sub-selects, for one command
  and one role.
\<close>

definition reads_of :: "'r policy list \<Rightarrow> command \<Rightarrow> db_role \<Rightarrow> relation list" where
  "reads_of ps cmd role =
     concat (map pol_reads (filter (\<lambda>p. pol_cmd p = cmd \<and> pol_to p = role) ps))"

fun policy_reads :: "relation \<Rightarrow> command \<Rightarrow> db_role \<Rightarrow> relation list" where
  "policy_reads Profiles = reads_of profiles_policies"
| "policy_reads Menus = reads_of menus_policies"
| "policy_reads User_menus = reads_of user_menus_policies"
| "policy_reads Activity_logs = reads_of activity_logs_policies"

text \<open>
  When a session's statement names a table, the engine adds to it the policies of the
  table for the statement's commands and the session's role, and then expands every
  table that a sub-select of those policies reads; a sub-select reads, so there the
  SELECT policies apply.  \<open>active\<close> holds the tables whose policies are being expanded.
  A table met again while it is active makes the engine refuse the statement with
  "infinite recursion detected in policy for relation" (42P17).  This is decided when
  the statement is planned, whatever the tables hold.
\<close>

function rls_recursion :: "relation list \<Rightarrow> db_role \<Rightarrow> command list \<Rightarrow> relation \<Rightarrow> bool" where
  "rls_recursion active role cmds rel =
     (if rel \<in> set active then True
      else \<exists>r \<in> set (concat (map (\<lambda>c. policy_reads rel c role) cmds)).
             rls_recursion (rel # active) role [SELECT] r)"
  by pat_completeness auto
termination
proof (relation "measure (\<lambda>(active, role, cmds, rel). card (UNIV - set active))")
  show "wf (measure (\<lambda>(active, role, cmds, rel). card (UNIV - set active)))" by simp
next
  fix active :: "relation list" and role :: db_role and cmds :: "command list" and rel x :: relation
  assume new: "rel \<notin> set active"
  have "y \<in> {Profiles, Menus, User_menus, Activity_logs}" for y :: relation
    by (cases y) simp_all
  then have "(UNIV :: relation set) = {Profiles, Menus, User_menus, Activity_logs}"
    by blast
  then have fin: "finite (UNIV :: relation set)"
    by (metis finite.emptyI finite.insertI)
  have "UNIV - set (rel # active) \<subset> UNIV - set active"
    using new by auto
  then have "card (UNIV - set (rel # active)) < card (UNIV - set active)"
    using fin by (meson finite_Diff psubset_card_mono)
  then show "((rel # active, role, [SELECT], x), (active, role, cmds, rel))
      \<in> measure (\<lambda>(active, role, cmds, rel). card (UNIV - set active))"
    by simp
qed

declare rls_recursion.simps [simp del]

text \<open>Whether the engine refuses a session's statement on a table.\<close>

definition refused :: "session \<Rightarrow> command list \<Rightarrow> relation \<Rightarrow> bool" where
  "refused s cmds rel = rls_recursion [] (role_of s) cmds rel"

text \<open>
  An UPDATE or DELETE may have a WHERE clause (\<open>None\<close>: it has none).  A WHERE clause
  reads the row, so with it the SELECT policies of the table apply besides those of the
  command.  The SET clause of an UPDATE assigns values, as the client's
  \<^verbatim>\<open>.update({...})\<close> does.
\<close>

definition with_where :: "command \<Rightarrow> ('r \<Rightarrow> bool) option \<Rightarrow> command list" where
  "with_where cmd w = (case w of None \<Rightarrow> [cmd] | Some f \<Rightarrow> [SELECT, cmd])"

definition where_true :: "('r \<Rightarrow> bool) option \<Rightarrow> 'r \<Rightarrow> bool" where
  "where_true w r = (case w of None \<Rightarrow> True | Some f \<Rightarrow> f r)"

text \<open>The rows an UPDATE or DELETE of a session reaches.\<close>

definition targets ::
  "command \<Rightarrow> 'r policy list \<Rightarrow> session \<Rightarrow> database \<Rightarrow> ('r \<Rightarrow> bool) option \<Rightarrow> 'r \<Rightarrow> bool" where
  "targets cmd ps s db w r =
     (using_ok cmd ps s db r \<and>
      (case w of None \<Rightarrow> True | Some f \<Rightarrow> using_ok SELECT ps s db r \<and> f r))"

subsection \<open>SELECT\<close>


definition select_menus :: "session \<Rightarrow> (menu \<Rightarrow> bool) \<Rightarrow> database \<Rightarrow> error + menu list" where
  "select_menus s whr db =
     (if refused s [SELECT] Menus then Inl InfiniteRecursion
      else Inr (filter (\<lambda>r. using_ok SELECT menus_policies s db r \<and> whr r) (menus db)))"



subsection \<open>Constraints\<close>

text \<open>\<^verbatim>\<open>CHECK (role IN ('admin', 'user', 'employee'))\<close> on profiles.\<close>

definition role_check :: "profile \<Rightarrow> bool" where
  "role_check r = (p_role r \<in> set [''admin'', ''user'', ''employee''])"

text \<open>Whether an id is the key of a row of \<^verbatim>\<open>auth.users\<close>, the target of most foreign keys.\<close>

definition is_auth_user :: "database \<Rightarrow> uuid \<Rightarrow> bool" where
  "is_auth_user db u = (u \<in> set (map au_id (auth_users db)))"

definition is_menu :: "database \<Rightarrow> uuid \<Rightarrow> bool" where
  "is_menu db m = (m \<in> set (map m_id (menus db)))"

text \<open>A nullable foreign key column is checked only when it is not NULL.\<close>

definition fk_opt :: "(uuid \<Rightarrow> bool) \<Rightarrow> uuid option \<Rightarrow> bool" where
  "fk_opt tgt v = (case v of None \<Rightarrow> True | Some u \<Rightarrow> tgt u)"

subsection \<open>INSERT\<close>

text \<open>
  The rows of one INSERT are taken in order: the WITH CHECK of the INSERT policies,
  then the CHECK constraints, then the unique indexes against the rows stored so far.
  The first failure aborts the whole statement.
\<close>

fun insert_rows ::
  "('r \<Rightarrow> bool) \<Rightarrow> ('r \<Rightarrow> bool) \<Rightarrow> ('r \<Rightarrow> 'r \<Rightarrow> bool) \<Rightarrow> 'r list \<Rightarrow> 'r list \<Rightarrow> error + 'r list" where
  "insert_rows chk valid conflict tbl [] = Inr tbl"
| "insert_rows chk valid conflict tbl (n # ns) =
     (if \<not> chk n then Inl RlsViolation
      else if \<not> valid n then Inl CheckViolation
      else if \<exists>r \<in> set tbl. conflict r n then Inl UniqueViolation
      else insert_rows chk valid conflict (tbl @ [n]) ns)"

text \<open>
  An INSERT into profiles; \<open>chk\<close> is the row level security test of the inserting role.
  The foreign key \<^verbatim>\<open>id REFERENCES auth.users(id)\<close> is checked at the end of the statement.
\<close>

definition insert_into_profiles :: "(profile \<Rightarrow> bool) \<Rightarrow> profile list \<Rightarrow> database \<Rightarrow> error + database" where
  "insert_into_profiles chk news db =
     (case insert_rows chk role_check (\<lambda>r n. p_id r = p_id n) (profiles db) news of
        Inl e \<Rightarrow> Inl e
      | Inr t \<Rightarrow>
          if \<exists>n \<in> set news. \<not> is_auth_user db (p_id n) then Inl ForeignKeyViolation
          else Inr (db\<lparr>profiles := t\<rparr>))"

text \<open>The INSERT a client session sends, subject to the policies of profiles.\<close>

definition insert_profiles :: "session \<Rightarrow> profile list \<Rightarrow> database \<Rightarrow> error + database" where
  "insert_profiles s news db =
     (if refused s [INSERT] Profiles then Inl InfiniteRecursion
      else insert_into_profiles (check_ok INSERT profiles_policies s db) news db)"

text \<open>
  An INSERT into user_menus; \<open>chk\<close> is the row level security test of the inserting
  role.  The primary key and \<^verbatim>\<open>UNIQUE(user_id, menu_id)\<close> are unique indexes; the three
  foreign keys are checked at the end of the statement.
\<close>

definition insert_into_user_menus ::
  "(user_menu \<Rightarrow> bool) \<Rightarrow> user_menu list \<Rightarrow> database \<Rightarrow> error + database" where
  "insert_into_user_menus chk news db =
     (case insert_rows chk (\<lambda>n. True)
             (\<lambda>r n. um_id r = um_id n \<or> (um_user_id r = um_user_id n \<and> um_menu_id r = um_menu_id n))
             (user_menus db) news of
        Inl e \<Rightarrow> Inl e
      | Inr t \<Rightarrow>
          if \<exists>n \<in> set news. \<not> (is_auth_user db (um_user_id n) \<and> is_menu db (um_menu_id n) \<and>
                                  fk_opt (is_auth_user db) (um_granted_by n))
          then Inl ForeignKeyViolation
          else Inr (db\<lparr>user_menus := t\<rparr>))"

definition insert_user_menus :: "session \<Rightarrow> user_menu list \<Rightarrow> database \<Rightarrow> error + database" where
  "insert_user_menus s news db =
     (if refused s [INSERT] User_menus then Inl InfiniteRecursion
      else insert_into_user_menus (check_ok INSERT user_menus_policies s db) news db)"

definition insert_activity_logs :: "session \<Rightarrow> activity_log list \<Rightarrow> database \<Rightarrow> error + database" where
  "insert_activity_logs s news db =
     (if refused s [INSERT] Activity_logs then Inl InfiniteRecursion
      else case insert_rows (check_ok INSERT activity_logs_policies s db) (\<lambda>n. True)
                  (\<lambda>r n. al_id r = al_id n) (activity_logs db) news of
             Inl e \<Rightarrow> Inl e
           | Inr t \<Rightarrow>
               if \<exists>n \<in> set news. \<not> fk_opt (is_auth_user db) (al_user_id n)
               then Inl ForeignKeyViolation
               else Inr (db\<lparr>activity_logs := t\<rparr>))"

subsection \<open>The signup trigger\<close>

text \<open>
  \<^verbatim>\<open>handle_new_user\<close> is \<^verbatim>\<open>SECURITY DEFINER\<close>: its INSERT runs as the owner of the tables,
  for whom no policy is consulted.  The columns it does not name take their defaults:
  \<^verbatim>\<open>is_active\<close> true, \<^verbatim>\<open>avatar_url\<close> NULL, \<^verbatim>\<open>created_at\<close> and \<^verbatim>\<open>updated_at\<close> \<^verbatim>\<open>now()\<close>.
\<close>

definition handle_new_user :: "timestamptz \<Rightarrow> auth_user \<Rightarrow> database \<Rightarrow> error + database" where
  "handle_new_user now NEW db =
     insert_into_profiles (\<lambda>n. True)
       [\<lparr>updated_at = Some now,
         p_id = au_id NEW,
         p_email = au_email NEW,
         p_full_name = coalesce (json_get_text (raw_user_meta_data NEW) ''full_name'') ''User'',
         p_role = coalesce (json_get_text (raw_user_meta_data NEW) ''role'') ''user'',
         p_is_active = Some True,
         p_avatar_url = None,
         p_created_at = Some now\<rparr>] db"

text \<open>
  The trigger \<^verbatim>\<open>on_auth_user_created\<close>: after the identity provider inserts a row into
  \<^verbatim>\<open>auth.users\<close>, \<^verbatim>\<open>handle_new_user\<close> runs for it; when the trigger raises, the identity
  is not stored either.
\<close>

definition signup :: "timestamptz \<Rightarrow> auth_user \<Rightarrow> database \<Rightarrow> error + database" where
  "signup now NEW db =
     (if is_auth_user db (au_id NEW) then Inl UniqueViolation
      else handle_new_user now NEW (db\<lparr>auth_users := auth_users db @ [NEW]\<rparr>))"

subsection \<open>UPDATE\<close>

text \<open>\<^verbatim>\<open>update_updated_at_column\<close>: \<^verbatim>\<open>NEW.updated_at = now(); RETURN NEW;\<close>\<close>

definition update_updated_at_column ::
  "timestamptz \<Rightarrow> 'a updated_at_row_scheme \<Rightarrow> 'a updated_at_row_scheme" where
  "update_updated_at_column now NEW = NEW\<lparr>updated_at := Some now\<rparr>"

text \<open>
  An UPDATE replaces each targeted row \<open>r\<close> by \<open>new r\<close>.  Every new row must pass the row
  level security test \<open>chk\<close> and the CHECK constraints, and the table that results from
  writing rows must satisfy its unique indexes.  An UPDATE that reaches no row writes
  nothing and raises nothing.
\<close>

definition update_rows ::
  "('r \<Rightarrow> bool) \<Rightarrow> ('r \<Rightarrow> 'r) \<Rightarrow> ('r \<Rightarrow> bool) \<Rightarrow> ('r \<Rightarrow> bool) \<Rightarrow> ('r list \<Rightarrow> bool) \<Rightarrow> 'r list
     \<Rightarrow> error + 'r list" where
  "update_rows tgt new chk valid unique tbl =
     (if \<exists>r \<in> set (filter tgt tbl). \<not> chk (new r) then Inl RlsViolation
      else if \<exists>r \<in> set (filter tgt tbl). \<not> valid (new r) then Inl CheckViolation
      else if filter tgt tbl \<noteq> [] \<and> \<not> unique (map (\<lambda>r. if tgt r then new r else r) tbl)
      then Inl UniqueViolation
      else Inr (map (\<lambda>r. if tgt r then new r else r) tbl))"

text \<open>
  An UPDATE of profiles that reaches the rows \<open>tgt\<close>: \<open>upd\<close> is the SET clause.  The
  trigger \<^verbatim>\<open>update_profiles_updated_at\<close> runs BEFORE UPDATE for each row, whoever sends
  the statement, so the checks see the row it returns.  A changed id must reference an
  identity.
\<close>

definition update_profiles_rows ::
  "(profile \<Rightarrow> bool) \<Rightarrow> (profile \<Rightarrow> bool) \<Rightarrow> timestamptz \<Rightarrow> (profile \<Rightarrow> profile) \<Rightarrow> database
     \<Rightarrow> error + database" where
  "update_profiles_rows tgt chk now upd db =
     (case update_rows tgt (\<lambda>r. update_updated_at_column now (upd r)) chk role_check
             (\<lambda>t. distinct (map p_id t)) (profiles db) of
        Inl e \<Rightarrow> Inl e
      | Inr t \<Rightarrow>
          if \<exists>r \<in> set (filter tgt (profiles db)).
               p_id (upd r) \<noteq> p_id r \<and> \<not> is_auth_user db (p_id (upd r))
          then Inl ForeignKeyViolation
          else Inr (db\<lparr>profiles := t\<rparr>))"

text \<open>The UPDATE sent by the owner of the tables, for whom no policy is consulted.\<close>

definition owner_update_profiles ::
  "timestamptz \<Rightarrow> (profile \<Rightarrow> bool) option \<Rightarrow> (profile \<Rightarrow> profile) \<Rightarrow> database \<Rightarrow> error + database" where
  "owner_update_profiles now w upd db = update_profiles_rows (where_true w) (\<lambda>n. True) now upd db"

text \<open>The UPDATE sent by a session.\<close>

definition update_profiles ::
  "session \<Rightarrow> timestamptz \<Rightarrow> (profile \<Rightarrow> bool) option \<Rightarrow> (profile \<Rightarrow> profile) \<Rightarrow> database
     \<Rightarrow> error + database" where
  "update_profiles s now w upd db =
     (if refused s (with_where UPDATE w) Profiles then Inl InfiniteRecursion
      else update_profiles_rows (targets UPDATE profiles_policies s db w)
             (\<lambda>n. check_ok UPDATE profiles_policies s db n \<and>
                   (w = None \<or> using_ok SELECT profiles_policies s db n))
             now upd db)"

text \<open>
  An UPDATE of menus, with the trigger \<^verbatim>\<open>update_menus_updated_at\<close>.  A changed
  \<^verbatim>\<open>created_by\<close> must reference an identity, and the id of a menu that grants reference
  cannot change.
\<close>

definition update_menus_rows ::
  "(menu \<Rightarrow> bool) \<Rightarrow> (menu \<Rightarrow> bool) \<Rightarrow> timestamptz \<Rightarrow> (menu \<Rightarrow> menu) \<Rightarrow> database
     \<Rightarrow> error + database" where
  "update_menus_rows tgt chk now upd db =
     (case update_rows tgt (\<lambda>r. update_updated_at_column now (upd r)) chk (\<lambda>n. True)
             (\<lambda>t. distinct (map m_id t)) (menus db) of
        Inl e \<Rightarrow> Inl e
      | Inr t \<Rightarrow>
          if \<exists>r \<in> set (filter tgt (menus db)).
               (m_created_by (upd r) \<noteq> m_created_by r \<and> \<not> fk_opt (is_auth_user db) (m_created_by (upd r)))
               \<or> (m_id (upd r) \<noteq> m_id r \<and> (\<exists>g \<in> set (user_menus db). um_menu_id g = m_id r))
          then Inl ForeignKeyViolation
          else Inr (db\<lparr>menus := t\<rparr>))"

definition owner_update_menus ::
  "timestamptz \<Rightarrow> (menu \<Rightarrow> bool) option \<Rightarrow> (menu \<Rightarrow> menu) \<Rightarrow> database \<Rightarrow> error + database" where
  "owner_update_menus now w upd db = update_menus_rows (where_true w) (\<lambda>n. True) now upd db"

definition update_menus ::
  "session \<Rightarrow> timestamptz \<Rightarrow> (menu \<Rightarrow> bool) option \<Rightarrow> (menu \<Rightarrow> menu) \<Rightarrow> database
     \<Rightarrow> error + database" where
  "update_menus s now w upd db =
     (if refused s (with_where UPDATE w) Menus then Inl InfiniteRecursion
      else update_menus_rows (targets UPDATE menus_policies s db w)
             (\<lambda>n. check_ok UPDATE menus_policies s db n \<and>
                   (w = None \<or> using_ok SELECT menus_policies s db n))
             now upd db)"

text \<open>An UPDATE of activity_logs sent by a session; the table has no trigger.\<close>

definition update_activity_logs ::
  "session \<Rightarrow> (activity_log \<Rightarrow> bool) option \<Rightarrow> (activity_log \<Rightarrow> activity_log) \<Rightarrow> database
     \<Rightarrow> error + database" where
  "update_activity_logs s w upd db =
     (if refused s (with_where UPDATE w) Activity_logs then Inl InfiniteRecursion
      else case update_rows (targets UPDATE activity_logs_policies s db w) upd
                  (\<lambda>n. check_ok UPDATE activity_logs_policies s db n \<and>
                        (w = None \<or> using_ok SELECT activity_logs_policies s db n))
                  (\<lambda>n. True)
                  (\<lambda>t. distinct (map al_id t))
                  (activity_logs db) of
             Inl e \<Rightarrow> Inl e
           | Inr t \<Rightarrow>
               if \<exists>r \<in> set (filter (targets UPDATE activity_logs_policies s db w) (activity_logs db)).
                    al_user_id (upd r) \<noteq> al_user_id r \<and> \<not> fk_opt (is_auth_user db) (al_user_id (upd r))
               then Inl ForeignKeyViolation
               else Inr (db\<lparr>activity_logs := t\<rparr>))"

subsection \<open>DELETE\<close>

text \<open>
  A DELETE that the engine does not refuse removes the rows it reaches; a row it may
  not reach is skipped silently.
\<close>

definition delete_user_menus ::
  "session \<Rightarrow> (user_menu \<Rightarrow> bool) option \<Rightarrow> database \<Rightarrow> error + database" where
  "delete_user_menus s w db =
     (if refused s (with_where DELETE w) User_menus then Inl InfiniteRecursion
      else Inr (db\<lparr>user_menus :=
                   filter (\<lambda>r. \<not> targets DELETE user_menus_policies s db w r) (user_menus db)\<rparr>))"

definition delete_activity_logs ::
  "session \<Rightarrow> (activity_log \<Rightarrow> bool) option \<Rightarrow> database \<Rightarrow> error + database" where
  "delete_activity_logs s w db =
     (if refused s (with_where DELETE w) Activity_logs then Inl InfiniteRecursion
      else Inr (db\<lparr>activity_logs :=
                   filter (\<lambda>r. \<not> targets DELETE activity_logs_policies s db w r) (activity_logs db)\<rparr>))"

text \<open>
  Deleting the menus \<open>tgt\<close>: \<^verbatim>\<open>menu_id uuid NOT NULL REFERENCES menus(id) ON DELETE CASCADE\<close>
  removes the grants of each deleted menu, whoever sends the statement.
\<close>

definition delete_menus_rows :: "(menu \<Rightarrow> bool) \<Rightarrow> database \<Rightarrow> database" where
  "delete_menus_rows tgt db =
     db\<lparr>menus := filter (\<lambda>r. \<not> tgt r) (menus db),
        user_menus :=
          filter (\<lambda>g. um_menu_id g \<notin> set (map m_id (filter tgt (menus db)))) (user_menus db)\<rparr>"

text \<open>The DELETE sent by the owner of the tables, and the DELETE sent by a session.\<close>

definition owner_delete_menus :: "(menu \<Rightarrow> bool) option \<Rightarrow> database \<Rightarrow> error + database" where
  "owner_delete_menus w db = Inr (delete_menus_rows (where_true w) db)"

definition delete_menus :: "session \<Rightarrow> (menu \<Rightarrow> bool) option \<Rightarrow> database \<Rightarrow> error + database" where
  "delete_menus s w db =
     (if refused s (with_where DELETE w) Menus then Inl InfiniteRecursion
      else Inr (delete_menus_rows (targets DELETE menus_policies s db w) db))"

text \<open>
  The identity provider deletes the identity \<open>x\<close> from \<^verbatim>\<open>auth.users\<close>.  The references
  declared \<^verbatim>\<open>ON DELETE CASCADE\<close> (\<^verbatim>\<open>profiles.id\<close>, \<^verbatim>\<open>user_menus.user_id\<close>) remove their
  rows, \<^verbatim>\<open>activity_logs.user_id\<close> is \<^verbatim>\<open>ON DELETE SET NULL\<close>, and the references with no
  action (\<^verbatim>\<open>menus.created_by\<close>, \<^verbatim>\<open>user_menus.granted_by\<close>) make the statement fail
  while a remaining row still points to \<open>x\<close>.
\<close>

definition delete_auth_user :: "uuid \<Rightarrow> database \<Rightarrow> error + database" where
  "delete_auth_user x db =
     (if \<not> is_auth_user db x then Inr db
      else if (\<exists>m \<in> set (menus db). m_created_by m = Some x) \<or>
              (\<exists>g \<in> set (filter (\<lambda>g. um_user_id g \<noteq> x) (user_menus db)). um_granted_by g = Some x)
      then Inl ForeignKeyViolation
      else Inr (db\<lparr>auth_users := filter (\<lambda>u. au_id u \<noteq> x) (auth_users db),
                   profiles := filter (\<lambda>p. p_id p \<noteq> x) (profiles db),
                   user_menus := filter (\<lambda>g. um_user_id g \<noteq> x) (user_menus db),
                   activity_logs :=
                     map (\<lambda>l. if al_user_id l = Some x then l\<lparr>al_user_id := None\<rparr> else l)
                       (activity_logs db)\<rparr>))"

subsection \<open>The client operation handleSave\<close>

text \<open>
  \<^verbatim>\<open>handleSave\<close> of \<^verbatim>\<open>MenuAccessModal\<close>: a DELETE of the grants of the menu, then, when
  \<^verbatim>\<open>assignedUserIds\<close> is not empty, one INSERT of a row per user id.  The two statements
  are separate requests.  The result is the stored database and the error shown, if
  any.  In \<^verbatim>\<open>inserts\<close>, \<open>gen i\<close> is the id \<^verbatim>\<open>gen_random_uuid()\<close> gives the \<open>i\<close>-th row, \<open>now\<close>
  the default of \<^verbatim>\<open>granted_at\<close>, and \<^verbatim>\<open>user?.id\<close> is the id of the session.
\<close>

definition inserts :: "session \<Rightarrow> timestamptz \<Rightarrow> (nat \<Rightarrow> uuid) \<Rightarrow> uuid \<Rightarrow> uuid list \<Rightarrow> user_menu list" where
  "inserts s now gen menu_id assignedUserIds =
     map (\<lambda>(i, userId).
            \<lparr>um_id = gen i, um_user_id = userId, um_menu_id = menu_id,
             um_granted_by = auth_uid s, um_granted_at = Some now\<rparr>)
       (enumerate 0 assignedUserIds)"

definition handleSave ::
  "session \<Rightarrow> timestamptz \<Rightarrow> (nat \<Rightarrow> uuid) \<Rightarrow> uuid \<Rightarrow> uuid list \<Rightarrow> database \<Rightarrow> database \<times> error option" where
  "handleSave s now gen menu_id assignedUserIds db =
     (case delete_user_menus s (Some (\<lambda>g. um_menu_id g = menu_id)) db of
        Inl deleteError \<Rightarrow> (db, Some deleteError)
      | Inr db1 \<Rightarrow>
          if length assignedUserIds > 0 then
            (case insert_user_menus s (inserts s now gen menu_id assignedUserIds) db1 of
               Inl insertError \<Rightarrow> (db1, Some insertError)
             | Inr db2 \<Rightarrow> (db2, None))
          else (db1, None))"

section \<open>An example database\<close>

text \<open>
  One admin (id 1), a user (id 2) and an employee (id 3); three menus, of which 12 is
  inactive; user 2 is granted menus 10 and 12, user 3 menu 11.
\<close>

definition example_db :: database where
  "example_db =
     \<lparr>auth_users =
        [\<lparr>au_id = 1, au_email = ''root@example.com'', raw_user_meta_data = None\<rparr>,
         \<lparr>au_id = 2, au_email = ''bob@example.com'', raw_user_meta_data = None\<rparr>,
         \<lparr>au_id = 3, au_email = ''eve@example.com'', raw_user_meta_data = None\<rparr>],
      profiles =
        [\<lparr>updated_at = Some 0, p_id = 1, p_email = ''root@example.com'', p_full_name = ''Root'',
          p_role = ''admin'', p_is_active = Some True, p_avatar_url = None, p_created_at = Some 0\<rparr>,
         \<lparr>updated_at = Some 0, p_id = 2, p_email = ''bob@example.com'', p_full_name = ''Bob'',
          p_role = ''user'', p_is_active = Some True, p_avatar_url = None, p_created_at = Some 0\<rparr>,
         \<lparr>updated_at = Some 0, p_id = 3, p_email = ''eve@example.com'', p_full_name = ''Eve'',
          p_role = ''employee'', p_is_active = Some True, p_avatar_url = None, p_created_at = Some 0\<rparr>],
      menus =
        [\<lparr>updated_at = Some 1, m_id = 10, m_name = ''Reports'', m_description = None,
          m_icon = ''Layout'', m_route = ''/reports'', m_order_index = 5, m_is_active = Some True,
          m_created_by = Some 1, m_created_at = Some 1\<rparr>,
         \<lparr>updated_at = Some 1, m_id = 11, m_name = ''Settings'', m_description = None,
          m_icon = ''Layout'', m_route = ''/settings'', m_order_index = 6, m_is_active = Some True,
          m_created_by = Some 1, m_created_at = Some 1\<rparr>,
         \<lparr>updated_at = Some 1, m_id = 12, m_name = ''Archive'', m_description = None,
          m_icon = ''Layout'', m_route = ''/archive'', m_order_index = 7, m_is_active = Some False,
          m_created_by = Some 1, m_created_at = Some 1\<rparr>],
      user_menus =
        [\<lparr>um_id = 100, um_user_id = 2, um_menu_id = 10, um_granted_by = Some 1, um_granted_at = Some 2\<rparr>,
         \<lparr>um_id = 101, um_user_id = 2, um_menu_id = 12, um_granted_by = Some 1, um_granted_at = Some 2\<rparr>,
         \<lparr>um_id = 102, um_user_id = 3, um_menu_id = 11, um_granted_by = Some 1, um_granted_at = Some 2\<rparr>],
      activity_logs =
        [\<lparr>al_id = 200, al_user_id = Some 2, al_action = ''login'', al_entity_type = ''user'',
          al_entity_id = Some 2, al_details = None, al_ip_address = None, al_created_at = Some 3\<rparr>]\<rparr>"

text \<open>The empty database, and an identity whose metadata asks for the role 'admin'.\<close>

definition empty_db :: database where
  "empty_db = \<lparr>auth_users = [], profiles = [], menus = [], user_menus = [], activity_logs = []\<rparr>"

definition mallory :: auth_user where
  "mallory = \<lparr>au_id = 7, au_email = ''mallory@example.com'',
               raw_user_meta_data = Some [(''role'', JText ''admin'')]\<rparr>"

text \<open>An audit entry attributed to user 2.\<close>

definition bob_login :: activity_log where
  "bob_login =
     \<lparr>al_id = 201, al_user_id = Some 2, al_action = ''profile_updated'', al_entity_type = ''user'',
      al_entity_id = Some 2, al_details = None, al_ip_address = None, al_created_at = Some 4\<rparr>"

section \<open>Properties\<close>

subsection \<open>The policy predicates in plain terms\<close>

lemma is_true_sql_and [simp]: "is_true (sql_and a b) \<longleftrightarrow> is_true a \<and> is_true b"
  by (cases a; cases b) (auto simp: is_true_def sql_and_def)

lemma is_true_sql_eq_Some [simp]: "is_true (sql_eq (Some x) b) \<longleftrightarrow> b = Some x"
  by (cases b) (auto simp: is_true_def sql_eq_def)

lemma is_true_sql_eq_Some2 [simp]: "is_true (sql_eq a (Some y)) \<longleftrightarrow> a = Some y"
  by (cases a) (auto simp: is_true_def sql_eq_def)

lemma is_true_sql_eq_None [simp]: "\<not> is_true (sql_eq None b)" "\<not> is_true (sql_eq a None)"
  by (cases a; simp add: is_true_def sql_eq_def)+

lemma is_true_sql_exists [simp]: "is_true (sql_exists rows) \<longleftrightarrow> rows \<noteq> []"
  by (simp add: is_true_def sql_exists_def)

lemmas profiles_policy_defs =
  profiles_policies_def Users_can_view_own_profile_def Admins_can_view_all_profiles_def
  Users_can_update_own_profile_def Admins_can_insert_profiles_def Admins_can_update_any_profile_def

lemmas menus_policy_defs =
  menus_policies_def Admins_can_view_all_menus_def Users_can_view_assigned_active_menus_def
  Admins_can_insert_menus_def Admins_can_update_menus_def Admins_can_delete_menus_def

lemmas user_menus_policy_defs =
  user_menus_policies_def Admins_can_view_all_user_menu_assignments_def
  Users_can_view_own_menu_assignments_def Admins_can_insert_user_menu_assignments_def
  Admins_can_delete_user_menu_assignments_def

lemmas activity_logs_policy_defs =
  activity_logs_policies_def Authenticated_users_can_insert_logs_def Admins_can_view_all_logs_def
  Users_can_view_own_logs_def

subsection \<open>Which statements the engine refuses\<close>

lemma policy_reads_anon: "policy_reads rel c anon = []"
  by (cases rel)
    (simp_all add: reads_of_def profiles_policy_defs menus_policy_defs user_menus_policy_defs
      activity_logs_policy_defs)

lemma recursion_profiles: "rls_recursion active authenticated [SELECT] Profiles"
proof (cases "Profiles \<in> set active")
  case True
  then show ?thesis by (simp add: rls_recursion.simps)
next
  case False
  have again: "rls_recursion (Profiles # active) authenticated [SELECT] Profiles"
    by (simp add: rls_recursion.simps)
  have "Profiles \<in> set (concat (map (\<lambda>c. policy_reads Profiles c authenticated) [SELECT]))"
    by (simp add: reads_of_def profiles_policy_defs)
  with again show ?thesis
    by (subst rls_recursion.simps) (use False in auto)
qed

lemma recursion_via_profiles:
  assumes "Profiles \<in> set (concat (map (\<lambda>c. policy_reads rel c authenticated) cmds))"
  shows "rls_recursion active authenticated cmds rel"
proof (cases "rel \<in> set active")
  case True
  then show ?thesis by (simp add: rls_recursion.simps)
next
  case False
  from assms recursion_profiles [of "rel # active"] show ?thesis
    by (subst rls_recursion.simps) (use False in auto)
qed

lemma no_recursion_without_reads:
  assumes "concat (map (\<lambda>c. policy_reads rel c role) cmds) = []"
  shows "\<not> rls_recursion [] role cmds rel"
  using assms by (subst rls_recursion.simps) simp

lemma refused_anon: "\<not> refused Anon cmds rel"
  unfolding refused_def by (rule no_recursion_without_reads) (simp add: policy_reads_anon)

lemma refused_select: "refused (Authenticated u) [SELECT] rel"
  unfolding refused_def
  by (cases rel; simp; rule recursion_via_profiles)
    (simp_all add: reads_of_def profiles_policy_defs menus_policy_defs user_menus_policy_defs
      activity_logs_policy_defs)


lemma not_refused_insert_logs: "\<not> refused s [INSERT] Activity_logs"
  unfolding refused_def
  by (rule no_recursion_without_reads) (simp add: reads_of_def activity_logs_policy_defs)

lemma refused_update:
  "refused (Authenticated u) (with_where UPDATE w) Profiles"
  "refused (Authenticated u) (with_where UPDATE w) Menus"
  unfolding refused_def
  by (simp; rule recursion_via_profiles;
      simp add: with_where_def reads_of_def profiles_policy_defs menus_policy_defs
        split: option.split)+

lemma refused_delete:
  "refused (Authenticated u) (with_where DELETE w) Menus"
  "refused (Authenticated u) (with_where DELETE w) User_menus"
  unfolding refused_def
  by (simp; rule recursion_via_profiles;
      simp add: with_where_def reads_of_def menus_policy_defs user_menus_policy_defs
        split: option.split)+

lemma refused_logs_where:
  "cmd = UPDATE \<or> cmd = DELETE \<Longrightarrow>
     refused (Authenticated u) (with_where cmd w) Activity_logs \<longleftrightarrow> w \<noteq> None"
proof (cases w)
  case None
  assume "cmd = UPDATE \<or> cmd = DELETE"
  then have "\<not> refused (Authenticated u) (with_where cmd None) Activity_logs"
    unfolding refused_def
    by (intro no_recursion_without_reads)
      (auto simp: with_where_def reads_of_def activity_logs_policy_defs)
  with None show ?thesis by simp
next
  case (Some f)
  have "refused (Authenticated u) (with_where cmd (Some f)) Activity_logs"
    unfolding refused_def
    by (simp, rule recursion_via_profiles)
      (simp add: with_where_def reads_of_def activity_logs_policy_defs)
  with Some show ?thesis by simp
qed

lemma anon_using:
  "\<not> using_ok cmd profiles_policies Anon db p"
  "\<not> using_ok cmd menus_policies Anon db m"
  "\<not> using_ok cmd user_menus_policies Anon db g"
  "\<not> using_ok cmd activity_logs_policies Anon db l"
  by (simp_all add: using_ok_def profiles_policy_defs menus_policy_defs user_menus_policy_defs
      activity_logs_policy_defs)

lemma anon_check:
  "\<not> check_ok cmd profiles_policies Anon db p"
  "\<not> check_ok cmd menus_policies Anon db m"
  "\<not> check_ok cmd user_menus_policies Anon db g"
  "\<not> check_ok cmd activity_logs_policies Anon db l"
  by (simp_all add: check_ok_def profiles_policy_defs menus_policy_defs user_menus_policy_defs
      activity_logs_policy_defs)

lemma update_rows_no_target:
  "\<forall>r \<in> set tbl. \<not> tgt r \<Longrightarrow> update_rows tgt new chk valid unique tbl = Inr tbl"
  by (simp add: update_rows_def filter_empty_conv map_idI)

lemma update_rows_Inr:
  "update_rows tgt new chk valid unique tbl = Inr t \<Longrightarrow>
     t = map (\<lambda>r. if tgt r then new r else r) tbl"
  by (simp add: update_rows_def split: if_splits)


subsection \<open>Listing menus\<close>

text \<open>
  C1.  What the code does where the claim expects the granted active menus: for every
  authenticated caller, admin or not, a SELECT over menus is refused.  The policy
  "Admins can view all menus" reads profiles, and the policy "Admins can view all
  profiles" on profiles reads profiles again.
\<close>

theorem C1_select_menus_refused:
  "select_menus (Authenticated u) whr db = Inl InfiniteRecursion"
  by (simp add: select_menus_def refused_select)

theorem C1_select_menus_refused_at_input:
  "select_menus (Authenticated 2) (\<lambda>m. True) example_db = Inl InfiniteRecursion"
  by (rule C1_select_menus_refused)

subsection \<open>Updating one's own profile\<close>

lemma update_profiles_anon: "update_profiles Anon now w upd db = Inr db"
  by (simp add: update_profiles_def refused_anon update_profiles_rows_def targets_def anon_using
      update_rows_no_target)

text \<open>
  C2.  For every caller, no UPDATE of profiles is committed: the stored database after
  the attempt is the one before, so in every stored row, the caller's own included, id,
  role and is_active equal their prior values.  An authenticated caller's UPDATE is
  refused (the UPDATE policies read profiles, whose SELECT policy reads profiles
  again); an anonymous caller's UPDATE reaches no row.
\<close>

theorem C2_self_update_not_committed:
  "commit db (update_profiles s now w upd db) = db
   \<and> map (\<lambda>p. (p_id p, p_role p, p_is_active p))
        (profiles (commit db (update_profiles s now w upd db))) =
      map (\<lambda>p. (p_id p, p_role p, p_is_active p)) (profiles db)"
proof -
  have "commit db (update_profiles s now w upd db) = db"
  proof (cases s)
    case Anon
    then show ?thesis by (simp add: update_profiles_anon commit_def)
  next
    case (Authenticated u)
    then show ?thesis by (simp add: update_profiles_def refused_update commit_def)
  qed
  then show ?thesis by simp
qed

theorem C2_self_update_witness:
  "update_profiles (Authenticated 2) 9 (Some (\<lambda>p. p_id p = 2)) (\<lambda>p. p\<lparr>p_role := ''admin''\<rparr>) example_db
     = Inl InfiniteRecursion
   \<and> update_profiles (Authenticated 1) 9 (Some (\<lambda>p. p_id p = 1))
       (\<lambda>p. p\<lparr>p_role := ''user'', p_is_active := Some False\<rparr>) example_db
     = Inl InfiniteRecursion
   \<and> map (\<lambda>p. (p_id p, p_role p, p_is_active p))
       (profiles (commit example_db
          (update_profiles (Authenticated 1) 9 (Some (\<lambda>p. p_id p = 1))
             (\<lambda>p. p\<lparr>p_role := ''user'', p_is_active := Some False\<rparr>) example_db)))
     = [(1, ''admin'', Some True), (2, ''user'', Some True), (3, ''employee'', Some True)]"
proof -
  have keep: "map (\<lambda>p. (p_id p, p_role p, p_is_active p)) (profiles example_db)
     = [(1, ''admin'', Some True), (2, ''user'', Some True), (3, ''employee'', Some True)]"
    by (simp add: example_db_def)
  from C2_self_update_not_committed [of example_db "Authenticated 1" 9 "Some (\<lambda>p. p_id p = 1)"
      "\<lambda>p. p\<lparr>p_role := ''user'', p_is_active := Some False\<rparr>"]
  have "map (\<lambda>p. (p_id p, p_role p, p_is_active p))
       (profiles (commit example_db
          (update_profiles (Authenticated 1) 9 (Some (\<lambda>p. p_id p = 1))
             (\<lambda>p. p\<lparr>p_role := ''user'', p_is_active := Some False\<rparr>) example_db)))
     = map (\<lambda>p. (p_id p, p_role p, p_is_active p)) (profiles example_db)"
    by (rule conjunct2)
  with keep show ?thesis
    by (simp only: update_profiles_def refused_update if_True simp_thms)
qed

subsection \<open>Signup\<close>

lemma insert_into_profiles_single:
  "insert_into_profiles chk [n] db =
     (if \<not> chk n then Inl RlsViolation
      else if \<not> role_check n then Inl CheckViolation
      else if \<exists>r \<in> set (profiles db). p_id r = p_id n then Inl UniqueViolation
      else if \<not> is_auth_user db (p_id n) then Inl ForeignKeyViolation
      else Inr (db\<lparr>profiles := profiles db @ [n]\<rparr>))"
  by (simp add: insert_into_profiles_def)


lemma signup_fresh:
  assumes fresh: "\<not> is_auth_user db (au_id u)"
    and fk: "\<forall>p \<in> set (profiles db). is_auth_user db (p_id p)"
    and role: "coalesce (json_get_text (raw_user_meta_data u) ''role'') ''user''
                 \<in> set [''admin'', ''user'', ''employee'']"
  shows "signup now u db =
           Inr (db\<lparr>auth_users := auth_users db @ [u],
                   profiles := profiles db @
                     [\<lparr>updated_at = Some now, p_id = au_id u, p_email = au_email u,
                       p_full_name = coalesce (json_get_text (raw_user_meta_data u) ''full_name'') ''User'',
                       p_role = coalesce (json_get_text (raw_user_meta_data u) ''role'') ''user'',
                       p_is_active = Some True, p_avatar_url = None, p_created_at = Some now\<rparr>]\<rparr>)"
proof -
  have nodup: "\<not> (\<exists>r \<in> set (profiles db). p_id r = au_id u)"
    using fresh fk by auto
  show ?thesis
    using fresh nodup role
    by (simp add: signup_def handle_new_user_def insert_into_profiles_single role_check_def
        is_auth_user_def)
qed

text \<open>
  C5.  For a new identity (its id is not yet in auth.users) with no metadata (the
  document is NULL or the empty object), signup stores the identity and appends
  exactly one profile row: the identity's id and email, full_name 'User', role 'user',
  is_active true.  (Every stored profile references an identity.)
\<close>

theorem C5_signup_defaults:
  assumes "\<not> is_auth_user db (au_id u)"
    and "\<forall>p \<in> set (profiles db). is_auth_user db (p_id p)"
    and "raw_user_meta_data u = None \<or> raw_user_meta_data u = Some []"
  shows "signup now u db =
           Inr (db\<lparr>auth_users := auth_users db @ [u],
                   profiles := profiles db @
                     [\<lparr>updated_at = Some now, p_id = au_id u, p_email = au_email u,
                       p_full_name = ''User'', p_role = ''user'',
                       p_is_active = Some True, p_avatar_url = None, p_created_at = Some now\<rparr>]\<rparr>)"
proof -
  have none: "json_get_text (raw_user_meta_data u) k = None" for k
    using assms(3) by (auto simp: json_get_text_def)
  show ?thesis
    using signup_fresh [OF assms(1,2), of now] by (simp add: none coalesce_def)
qed

theorem C5_signup_defaults_witness:
  "profiles (commit example_db
      (signup 50 \<lparr>au_id = 4, au_email = ''alice@example.com'', raw_user_meta_data = None\<rparr> example_db))
   = profiles example_db @
       [\<lparr>updated_at = Some 50, p_id = 4, p_email = ''alice@example.com'', p_full_name = ''User'',
         p_role = ''user'', p_is_active = Some True, p_avatar_url = None, p_created_at = Some 50\<rparr>]"
proof -
  have a: "\<not> is_auth_user example_db (au_id \<lparr>au_id = 4, au_email = ''alice@example.com'', raw_user_meta_data = None\<rparr>)"
    by (simp add: example_db_def is_auth_user_def)
  have b: "\<forall>p \<in> set (profiles example_db). is_auth_user example_db (p_id p)"
    by (simp add: example_db_def is_auth_user_def)
  have c: "raw_user_meta_data \<lparr>au_id = 4, au_email = ''alice@example.com'', raw_user_meta_data = None\<rparr> = None
           \<or> raw_user_meta_data \<lparr>au_id = 4, au_email = ''alice@example.com'', raw_user_meta_data = None\<rparr> = Some []"
    by simp
  show ?thesis
    using C5_signup_defaults [OF a b c, of 50] by (simp add: commit_def)
qed

text \<open>
  C3.  The signup trigger stores the role named in the identity's metadata, whatever
  profiles exist and without consulting a policy or a session: for a new identity whose
  metadata gives a role that the CHECK constraint admits (in particular 'admin'),
  signup succeeds and the created profile has that role and is_active true.
\<close>

theorem C3_signup_copies_role:
  assumes "\<not> is_auth_user db (au_id u)"
    and "\<forall>p \<in> set (profiles db). is_auth_user db (p_id p)"
    and "json_get_text (raw_user_meta_data u) ''role'' = Some r"
    and "r \<in> set [''admin'', ''user'', ''employee'']"
  shows "signup now u db =
           Inr (db\<lparr>auth_users := auth_users db @ [u],
                   profiles := profiles db @
                     [\<lparr>updated_at = Some now, p_id = au_id u, p_email = au_email u,
                       p_full_name = coalesce (json_get_text (raw_user_meta_data u) ''full_name'') ''User'',
                       p_role = r,
                       p_is_active = Some True, p_avatar_url = None, p_created_at = Some now\<rparr>]\<rparr>)"
proof -
  have "coalesce (json_get_text (raw_user_meta_data u) ''role'') ''user'' = r"
    using assms(3) by (simp add: coalesce_def)
  then show ?thesis
    using signup_fresh [OF assms(1,2), of now] assms(4) by simp
qed

theorem C3_signup_copies_role_witness:
  "map (\<lambda>p. (p_id p, p_role p, p_is_active p)) (profiles (commit empty_db (signup 50 mallory empty_db)))
     = [(7, ''admin'', Some True)]"
proof -
  have a: "\<not> is_auth_user empty_db (au_id mallory)"
    by (simp add: empty_db_def is_auth_user_def)
  have b: "\<forall>p \<in> set (profiles empty_db). is_auth_user empty_db (p_id p)"
    by (simp add: empty_db_def)
  have c: "json_get_text (raw_user_meta_data mallory) ''role'' = Some ''admin''"
    by (simp add: mallory_def json_get_text_def)
  have d: "''admin'' \<in> set [''admin'', ''user'', ''employee'']"
    by simp
  note C3_signup_copies_role [OF a b c d, of 50]
  then show ?thesis
    by (simp add: commit_def empty_db_def mallory_def)
qed

subsection \<open>The audit log\<close>

lemma insert_rows_Inr:
  "insert_rows chk valid conflict tbl ns = Inr t \<Longrightarrow>
     t = tbl @ ns \<and> (\<forall>n \<in> set ns. chk n \<and> valid n \<and> (\<forall>r \<in> set tbl. \<not> conflict r n))"
proof (induction ns arbitrary: tbl)
  case Nil
  then show ?case by simp
next
  case (Cons n ns)
  from Cons.prems have n: "chk n" "valid n" "\<forall>r \<in> set tbl. \<not> conflict r n"
    and rest: "insert_rows chk valid conflict (tbl @ [n]) ns = Inr t"
    by (auto split: if_splits)
  from Cons.IH [OF rest] n show ?case by auto
qed

lemma activity_logs_insert_check:
  "check_ok INSERT activity_logs_policies s db n \<longleftrightarrow>
     role_of s = authenticated \<and> auth_uid s \<noteq> None \<and> al_user_id n = auth_uid s"
  by (cases "auth_uid s"; cases "al_user_id n")
    (auto simp: check_ok_def activity_logs_policy_defs)

lemma activity_logs_no_update: "\<not> using_ok UPDATE activity_logs_policies s db r"
  by (simp add: using_ok_def activity_logs_policy_defs)

lemma activity_logs_no_delete: "\<not> using_ok DELETE activity_logs_policies s db r"
  by (simp add: using_ok_def activity_logs_policy_defs)

lemma update_activity_logs_result:
  "update_activity_logs s w upd db =
     (if refused s (with_where UPDATE w) Activity_logs then Inl InfiniteRecursion else Inr db)"
  by (simp add: update_activity_logs_def targets_def activity_logs_no_update update_rows_no_target)

lemma delete_activity_logs_result:
  "delete_activity_logs s w db =
     (if refused s (with_where DELETE w) Activity_logs then Inl InfiniteRecursion else Inr db)"
  by (simp add: delete_activity_logs_def targets_def activity_logs_no_delete)

text \<open>
  C4.  An INSERT into activity_logs is stored only when the session is authenticated
  and every new row carries the session's own id as user_id; a stored INSERT appends
  its rows and keeps the existing ones.  For every session, admin or not, an UPDATE and
  a DELETE on activity_logs change nothing: the stored database after the attempt is
  the one before (the statement reaches no row, or is refused).  After any of the three
  statements the rows stored before are still there, unchanged and in order.
\<close>

theorem C4_activity_logs_write_once:
  "(\<forall>db'. insert_activity_logs s news db = Inr db' \<longrightarrow>
       (\<forall>n \<in> set news. role_of s = authenticated \<and> al_user_id n = auth_uid s \<and> auth_uid s \<noteq> None)
       \<and> activity_logs db' = activity_logs db @ news)
   \<and> commit db (update_activity_logs s w upd db) = db
   \<and> commit db (delete_activity_logs s w db) = db
   \<and> take (length (activity_logs db))
        (activity_logs (commit db (insert_activity_logs s news db))) = activity_logs db"
proof -
  have ins: "(\<forall>n \<in> set news. role_of s = authenticated \<and> al_user_id n = auth_uid s \<and> auth_uid s \<noteq> None)
       \<and> activity_logs db' = activity_logs db @ news"
    if "insert_activity_logs s news db = Inr db'" for db'
  proof -
    from that obtain t where
      t: "insert_rows (check_ok INSERT activity_logs_policies s db) (\<lambda>n. True)
             (\<lambda>r n. al_id r = al_id n) (activity_logs db) news = Inr t"
      and db': "db' = db\<lparr>activity_logs := t\<rparr>"
      by (auto simp: insert_activity_logs_def split: sum.splits if_splits)
    from insert_rows_Inr [OF t] db' show ?thesis
      by (auto simp: activity_logs_insert_check)
  qed
  have upd: "commit db (update_activity_logs s w upd db) = db"
    by (simp add: update_activity_logs_result commit_def)
  have del: "commit db (delete_activity_logs s w db) = db"
    by (simp add: delete_activity_logs_result commit_def)
  have keep: "take (length (activity_logs db))
        (activity_logs (commit db (insert_activity_logs s news db))) = activity_logs db"
  proof (cases "insert_activity_logs s news db")
    case (Inl e)
    then show ?thesis by (simp add: commit_def)
  next
    case (Inr db')
    with ins [OF Inr] show ?thesis by (simp add: commit_def)
  qed
  from ins upd del keep show ?thesis by blast
qed

theorem C4_activity_logs_witness:
  "insert_activity_logs (Authenticated 2) [bob_login] example_db
     = Inr (example_db\<lparr>activity_logs := activity_logs example_db @ [bob_login]\<rparr>)
   \<and> insert_activity_logs (Authenticated 3) [bob_login] example_db = Inl RlsViolation
   \<and> insert_activity_logs (Authenticated 1) [bob_login] example_db = Inl RlsViolation
   \<and> insert_activity_logs Anon [bob_login] example_db = Inl RlsViolation
   \<and> update_activity_logs (Authenticated 1) (Some (\<lambda>l. al_id l = 200)) (\<lambda>l. l\<lparr>al_action := ''x''\<rparr>) example_db
       = Inl InfiniteRecursion
   \<and> update_activity_logs (Authenticated 1) None (\<lambda>l. l\<lparr>al_action := ''x''\<rparr>) example_db
       = Inr example_db
   \<and> delete_activity_logs (Authenticated 1) (Some (\<lambda>l. al_id l = 200)) example_db
       = Inl InfiniteRecursion
   \<and> commit example_db (delete_activity_logs (Authenticated 1) (Some (\<lambda>l. al_id l = 200)) example_db)
       = example_db"
proof -
  have a: "insert_activity_logs (Authenticated 2) [bob_login] example_db
     = Inr (example_db\<lparr>activity_logs := activity_logs example_db @ [bob_login]\<rparr>)"
    by (simp add: insert_activity_logs_def not_refused_insert_logs activity_logs_insert_check
        bob_login_def example_db_def fk_opt_def is_auth_user_def)
  have b: "insert_activity_logs (Authenticated 3) [bob_login] example_db = Inl RlsViolation"
    "insert_activity_logs (Authenticated 1) [bob_login] example_db = Inl RlsViolation"
    "insert_activity_logs Anon [bob_login] example_db = Inl RlsViolation"
    by (simp_all add: insert_activity_logs_def not_refused_insert_logs activity_logs_insert_check
        bob_login_def)
  have c: "update_activity_logs (Authenticated 1) (Some (\<lambda>l. al_id l = 200)) (\<lambda>l. l\<lparr>al_action := ''x''\<rparr>) example_db
       = Inl InfiniteRecursion"
    "update_activity_logs (Authenticated 1) None (\<lambda>l. l\<lparr>al_action := ''x''\<rparr>) example_db
       = Inr example_db"
    by (simp_all add: update_activity_logs_result refused_logs_where)
  have d: "delete_activity_logs (Authenticated 1) (Some (\<lambda>l. al_id l = 200)) example_db
       = Inl InfiniteRecursion"
    by (simp add: delete_activity_logs_result refused_logs_where)
  from C4_activity_logs_write_once [of "Authenticated 1" "[bob_login]" example_db
      "Some (\<lambda>l. al_id l = 200)" "\<lambda>l. l\<lparr>al_action := ''x''\<rparr>"]
  have e: "commit example_db (delete_activity_logs (Authenticated 1) (Some (\<lambda>l. al_id l = 200)) example_db)
       = example_db"
    by blast
  from a b c d e show ?thesis by simp
qed


subsection \<open>Grants\<close>

lemma insert_user_menus_anon: "news \<noteq> [] \<Longrightarrow> insert_user_menus Anon news db = Inl RlsViolation"
  by (cases news)
    (simp_all add: insert_user_menus_def refused_anon insert_into_user_menus_def anon_check)



subsection \<open>Replacing the grants of a menu\<close>

lemma delete_user_menus_anon: "delete_user_menus Anon w db = Inr db"
  by (simp add: delete_user_menus_def refused_anon targets_def anon_using)

text \<open>
  C9.  What the code does where the claim expects the grants of the menu to be
  replaced: for every authenticated caller, admin or not, the DELETE that handleSave
  sends first is refused, handleSave shows that error, sends no INSERT, and the stored
  database is the one before, with the old grants of the menu.  For an anonymous
  caller the DELETE reaches no row and raises nothing: with an empty list of users
  handleSave ends without an error and the old grants stay; otherwise the INSERT is
  rejected.
\<close>

theorem C9_handleSave_refused:
  "handleSave (Authenticated u) now gen m us db = (db, Some InfiniteRecursion)
   \<and> handleSave Anon now gen m us db = (db, if us = [] then None else Some RlsViolation)"
proof -
  have "handleSave (Authenticated u) now gen m us db = (db, Some InfiniteRecursion)"
    by (simp add: handleSave_def delete_user_menus_def refused_delete)
  moreover have "handleSave Anon now gen m us db = (db, if us = [] then None else Some RlsViolation)"
  proof (cases "us = []")
    case True
    then show ?thesis by (simp add: handleSave_def delete_user_menus_anon)
  next
    case False
    then have "inserts Anon now gen m us \<noteq> []" by (cases us) (simp_all add: inserts_def)
    then show ?thesis
      using False by (simp add: handleSave_def delete_user_menus_anon insert_user_menus_anon)
  qed
  ultimately show ?thesis by simp
qed

theorem C9_handleSave_refused_at_input:
  "handleSave (Authenticated 1) 20 (\<lambda>i. 300 + i) 10 [3, 1] example_db
     = (example_db, Some InfiniteRecursion)
   \<and> map um_id (filter (\<lambda>g. um_menu_id g = 10)
        (user_menus (fst (handleSave (Authenticated 1) 20 (\<lambda>i. 300 + i) 10 [3, 1] example_db))))
     = [100]
   \<and> handleSave Anon 20 (\<lambda>i. 300 + i) 10 [] example_db = (example_db, None)"
proof -
  have "map um_id (filter (\<lambda>g. um_menu_id g = 10) (user_menus example_db)) = [100]"
    by (simp add: example_db_def)
  with C9_handleSave_refused [of 1 20 "\<lambda>i. 300 + i" 10 "[3, 1]" example_db]
    C9_handleSave_refused [of 1 20 "\<lambda>i. 300 + i" 10 "[]" example_db]
  show ?thesis by simp
qed

subsection \<open>Cascading deletes\<close>

lemma delete_menus_anon: "delete_menus Anon w db = Inr db"
  by (simp add: delete_menus_def refused_anon delete_menus_rows_def targets_def anon_using)

text \<open>
  C7.  When the menu with id \<open>x\<close> is deleted (by the owner of the tables: a session's
  DELETE on menus deletes nothing), the stored database loses that menu row and exactly
  the grants whose menu_id is \<open>x\<close>; identities, profiles, audit entries, the other menus
  and the other grants stay.  A DELETE on menus sent by a session leaves the database
  as it was, so no grant goes without its menu.  When the identity \<open>u\<close> is deleted from
  auth.users, the grants that go are exactly those whose user_id is \<open>u\<close>; the profile of
  \<open>u\<close> goes with its identity, no menu and no audit entry is deleted (audit entries of
  \<open>u\<close> get user_id NULL).  The deletion of an identity is refused, and deletes nothing,
  while a menu's created_by or a remaining grant's granted_by still references it.
\<close>

theorem C7_cascade_deletes:
  "(is_menu db x \<longrightarrow>
      owner_delete_menus (Some (\<lambda>r. m_id r = x)) db =
        Inr (db\<lparr>menus := filter (\<lambda>r. m_id r \<noteq> x) (menus db),
                user_menus := filter (\<lambda>g. um_menu_id g \<noteq> x) (user_menus db)\<rparr>))
   \<and> commit db (delete_menus s w db) = db
   \<and> (\<forall>db'. is_auth_user db u \<and> delete_auth_user u db = Inr db' \<longrightarrow>
         db' = db\<lparr>auth_users := filter (\<lambda>a. au_id a \<noteq> u) (auth_users db),
                  profiles := filter (\<lambda>p. p_id p \<noteq> u) (profiles db),
                  user_menus := filter (\<lambda>g. um_user_id g \<noteq> u) (user_menus db),
                  activity_logs :=
                    map (\<lambda>l. if al_user_id l = Some u then l\<lparr>al_user_id := None\<rparr> else l)
                      (activity_logs db)\<rparr>
         \<and> menus db' = menus db
         \<and> map al_id (activity_logs db') = map al_id (activity_logs db))
   \<and> (is_auth_user db u \<and>
        ((\<exists>r \<in> set (menus db). m_created_by r = Some u) \<or>
         (\<exists>g \<in> set (user_menus db). um_user_id g \<noteq> u \<and> um_granted_by g = Some u))
        \<longrightarrow> delete_auth_user u db = Inl ForeignKeyViolation)"
proof -
  have one: "owner_delete_menus (Some (\<lambda>r. m_id r = x)) db =
        Inr (db\<lparr>menus := filter (\<lambda>r. m_id r \<noteq> x) (menus db),
                user_menus := filter (\<lambda>g. um_menu_id g \<noteq> x) (user_menus db)\<rparr>)"
    if ex: "is_menu db x"
  proof -
    have "set (map m_id (filter (\<lambda>r. m_id r = x) (menus db))) = {x}"
      using ex by (auto simp: is_menu_def)
    then show ?thesis
      by (simp add: owner_delete_menus_def delete_menus_rows_def where_true_def)
  qed
  have two: "commit db (delete_menus s w db) = db"
  proof (cases s)
    case Anon
    then show ?thesis by (simp add: delete_menus_anon commit_def)
  next
    case (Authenticated v)
    then show ?thesis by (simp add: delete_menus_def refused_delete commit_def)
  qed
  have three: "db' = db\<lparr>auth_users := filter (\<lambda>a. au_id a \<noteq> u) (auth_users db),
                  profiles := filter (\<lambda>p. p_id p \<noteq> u) (profiles db),
                  user_menus := filter (\<lambda>g. um_user_id g \<noteq> u) (user_menus db),
                  activity_logs :=
                    map (\<lambda>l. if al_user_id l = Some u then l\<lparr>al_user_id := None\<rparr> else l)
                      (activity_logs db)\<rparr>
         \<and> menus db' = menus db
         \<and> map al_id (activity_logs db') = map al_id (activity_logs db)"
    if "is_auth_user db u \<and> delete_auth_user u db = Inr db'" for db'
  proof -
    from that have db': "db' = db\<lparr>auth_users := filter (\<lambda>a. au_id a \<noteq> u) (auth_users db),
                  profiles := filter (\<lambda>p. p_id p \<noteq> u) (profiles db),
                  user_menus := filter (\<lambda>g. um_user_id g \<noteq> u) (user_menus db),
                  activity_logs :=
                    map (\<lambda>l. if al_user_id l = Some u then l\<lparr>al_user_id := None\<rparr> else l)
                      (activity_logs db)\<rparr>"
      by (auto simp: delete_auth_user_def split: if_splits)
    have "map al_id (map (\<lambda>l. if al_user_id l = Some u then l\<lparr>al_user_id := None\<rparr> else l)
                      (activity_logs db)) = map al_id (activity_logs db)"
      by (simp add: comp_def if_distrib cong: if_cong)
    with db' show ?thesis by simp
  qed
  have four: "delete_auth_user u db = Inl ForeignKeyViolation"
    if "is_auth_user db u \<and>
        ((\<exists>r \<in> set (menus db). m_created_by r = Some u) \<or>
         (\<exists>g \<in> set (user_menus db). um_user_id g \<noteq> u \<and> um_granted_by g = Some u))"
    using that by (auto simp: delete_auth_user_def)
  from one two three four show ?thesis by blast
qed

theorem C7_cascade_deletes_witness:
  "map m_id (menus (commit example_db (owner_delete_menus (Some (\<lambda>r. m_id r = 10)) example_db)))
     = [11, 12]
   \<and> map um_id (user_menus (commit example_db (owner_delete_menus (Some (\<lambda>r. m_id r = 10)) example_db)))
     = [101, 102]
   \<and> commit example_db (delete_menus (Authenticated 1) (Some (\<lambda>r. m_id r = 10)) example_db) = example_db
   \<and> map um_id (user_menus (commit example_db (delete_auth_user 2 example_db))) = [102]
   \<and> map p_id (profiles (commit example_db (delete_auth_user 2 example_db))) = [1, 3]
   \<and> map (\<lambda>l. (al_id l, al_user_id l)) (activity_logs (commit example_db (delete_auth_user 2 example_db)))
     = [(200, None)]
   \<and> delete_auth_user 1 example_db = Inl ForeignKeyViolation"
proof -
  have menu: "is_menu example_db 10"
    by (simp add: is_menu_def example_db_def)
  have ident: "is_auth_user example_db 2"
    by (simp add: is_auth_user_def example_db_def)
  have del: "delete_auth_user 2 example_db =
      Inr (example_db\<lparr>auth_users := filter (\<lambda>u. au_id u \<noteq> 2) (auth_users example_db),
                  profiles := filter (\<lambda>p. p_id p \<noteq> 2) (profiles example_db),
                  user_menus := filter (\<lambda>g. um_user_id g \<noteq> 2) (user_menus example_db),
                  activity_logs :=
                    map (\<lambda>l. if al_user_id l = Some 2 then l\<lparr>al_user_id := None\<rparr> else l)
                      (activity_logs example_db)\<rparr>)"
    by (simp add: delete_auth_user_def ident) (simp add: example_db_def)
  note inst = C7_cascade_deletes [of example_db 10 "Authenticated 1" "Some (\<lambda>r. m_id r = 10)" 2]
  from inst menu
  have a: "owner_delete_menus (Some (\<lambda>r. m_id r = 10)) example_db =
        Inr (example_db\<lparr>menus := filter (\<lambda>r. m_id r \<noteq> 10) (menus example_db),
                user_menus := filter (\<lambda>g. um_menu_id g \<noteq> 10) (user_menus example_db)\<rparr>)"
    by blast
  from inst
  have b: "commit example_db (delete_menus (Authenticated 1) (Some (\<lambda>r. m_id r = 10)) example_db)
           = example_db"
    by blast
  have c: "delete_auth_user 1 example_db = Inl ForeignKeyViolation"
    by (simp add: delete_auth_user_def is_auth_user_def example_db_def)
  show ?thesis
    unfolding a b c del by (simp add: commit_def example_db_def)
qed


subsection \<open>Reads\<close>



subsection \<open>The timestamp trigger\<close>

lemma update_profiles_rows_Inr:
  "update_profiles_rows tgt chk now upd db = Inr db' \<Longrightarrow>
     profiles db' = map (\<lambda>r. if tgt r then (upd r)\<lparr>updated_at := Some now\<rparr> else r) (profiles db)"
proof -
  assume a: "update_profiles_rows tgt chk now upd db = Inr db'"
  then obtain t where
    t: "update_rows tgt (\<lambda>r. update_updated_at_column now (upd r)) chk role_check
          (\<lambda>t. distinct (map p_id t)) (profiles db) = Inr t"
    and db': "db' = db\<lparr>profiles := t\<rparr>"
    by (auto simp: update_profiles_rows_def split: sum.splits if_splits)
  from update_rows_Inr [OF t] db' show ?thesis
    by (simp add: update_updated_at_column_def)
qed

lemma update_menus_rows_Inr:
  "update_menus_rows tgt chk now upd db = Inr db' \<Longrightarrow>
     menus db' = map (\<lambda>r. if tgt r then (upd r)\<lparr>updated_at := Some now\<rparr> else r) (menus db)"
proof -
  assume a: "update_menus_rows tgt chk now upd db = Inr db'"
  then obtain t where
    t: "update_rows tgt (\<lambda>r. update_updated_at_column now (upd r)) chk (\<lambda>n. True)
          (\<lambda>t. distinct (map m_id t)) (menus db) = Inr t"
    and db': "db' = db\<lparr>menus := t\<rparr>"
    by (auto simp: update_menus_rows_def split: sum.splits if_splits)
  from update_rows_Inr [OF t] db' show ?thesis
    by (simp add: update_updated_at_column_def)
qed

text \<open>
  C10.  The trigger function overwrites updated_at with the current time whatever value
  the row carried, and applying it twice gives the same row as applying it once.  After
  every UPDATE of profiles or of menus that is stored, sent by the owner of the tables
  or by a session, each row the statement reached is the row of the SET clause with
  updated_at replaced by the current time, and every other row is as before.
\<close>

theorem C10_updated_at:
  "updated_at (update_updated_at_column now NEW) = Some now
   \<and> update_updated_at_column now (update_updated_at_column now NEW) = update_updated_at_column now NEW
   \<and> (\<forall>db'. owner_update_profiles now w upd db = Inr db' \<longrightarrow>
         profiles db' =
           map (\<lambda>r. if where_true w r then (upd r)\<lparr>updated_at := Some now\<rparr> else r) (profiles db))
   \<and> (\<forall>db'. owner_update_menus now mw mupd db = Inr db' \<longrightarrow>
         menus db' =
           map (\<lambda>r. if where_true mw r then (mupd r)\<lparr>updated_at := Some now\<rparr> else r) (menus db))
   \<and> (\<forall>db'. update_profiles s now w upd db = Inr db' \<longrightarrow>
         profiles db' =
           map (\<lambda>r. if targets UPDATE profiles_policies s db w r
                     then (upd r)\<lparr>updated_at := Some now\<rparr> else r) (profiles db))
   \<and> (\<forall>db'. update_menus s now mw mupd db = Inr db' \<longrightarrow>
         menus db' =
           map (\<lambda>r. if targets UPDATE menus_policies s db mw r
                     then (mupd r)\<lparr>updated_at := Some now\<rparr> else r) (menus db))"
proof (intro conjI allI impI)
  show "updated_at (update_updated_at_column now NEW) = Some now"
    by (simp add: update_updated_at_column_def)
  show "update_updated_at_column now (update_updated_at_column now NEW) = update_updated_at_column now NEW"
    by (simp add: update_updated_at_column_def)
next
  fix db' assume "owner_update_profiles now w upd db = Inr db'"
  then show "profiles db' =
           map (\<lambda>r. if where_true w r then (upd r)\<lparr>updated_at := Some now\<rparr> else r) (profiles db)"
    unfolding owner_update_profiles_def by (rule update_profiles_rows_Inr)
next
  fix db' assume "owner_update_menus now mw mupd db = Inr db'"
  then show "menus db' =
           map (\<lambda>r. if where_true mw r then (mupd r)\<lparr>updated_at := Some now\<rparr> else r) (menus db)"
    unfolding owner_update_menus_def by (rule update_menus_rows_Inr)
next
  fix db' assume "update_profiles s now w upd db = Inr db'"
  then have "update_profiles_rows (targets UPDATE profiles_policies s db w)
             (\<lambda>n. check_ok UPDATE profiles_policies s db n \<and>
                   (w = None \<or> using_ok SELECT profiles_policies s db n))
             now upd db = Inr db'"
    by (simp add: update_profiles_def split: if_splits)
  then show "profiles db' =
           map (\<lambda>r. if targets UPDATE profiles_policies s db w r
                     then (upd r)\<lparr>updated_at := Some now\<rparr> else r) (profiles db)"
    by (rule update_profiles_rows_Inr)
next
  fix db' assume "update_menus s now mw mupd db = Inr db'"
  then have "update_menus_rows (targets UPDATE menus_policies s db mw)
             (\<lambda>n. check_ok UPDATE menus_policies s db n \<and>
                   (mw = None \<or> using_ok SELECT menus_policies s db n))
             now mupd db = Inr db'"
    by (simp add: update_menus_def split: if_splits)
  then show "menus db' =
           map (\<lambda>r. if targets UPDATE menus_policies s db mw r
                     then (mupd r)\<lparr>updated_at := Some now\<rparr> else r) (menus db)"
    by (rule update_menus_rows_Inr)
qed

lemma example_owner_update_profiles:
  "owner_update_profiles 9 (Some (\<lambda>p. p_id p = 2))
     (\<lambda>p. p\<lparr>p_full_name := ''Robert'', updated_at := Some 999\<rparr>) example_db
   = Inr (example_db\<lparr>profiles :=
       map (\<lambda>r. if p_id r = 2
                 then update_updated_at_column 9 (r\<lparr>p_full_name := ''Robert'', updated_at := Some 999\<rparr>)
                 else r) (profiles example_db)\<rparr>)"
  by (simp add: example_db_def owner_update_profiles_def update_profiles_rows_def update_rows_def
      where_true_def update_updated_at_column_def role_check_def is_auth_user_def)

lemma example_owner_update_menus:
  "owner_update_menus 9 (Some (\<lambda>m. m_id m = 11))
     (\<lambda>m. m\<lparr>m_name := ''Prefs'', updated_at := None\<rparr>) example_db
   = Inr (example_db\<lparr>menus :=
       map (\<lambda>r. if m_id r = 11
                 then update_updated_at_column 9 (r\<lparr>m_name := ''Prefs'', updated_at := None\<rparr>)
                 else r) (menus example_db)\<rparr>)"
  by (simp add: example_db_def owner_update_menus_def update_menus_rows_def update_rows_def
      where_true_def update_updated_at_column_def fk_opt_def is_auth_user_def)

theorem C10_updated_at_witness:
  "map (\<lambda>p. (p_id p, p_full_name p, updated_at p))
     (profiles (commit example_db
        (owner_update_profiles 9 (Some (\<lambda>p. p_id p = 2))
           (\<lambda>p. p\<lparr>p_full_name := ''Robert'', updated_at := Some 999\<rparr>) example_db)))
     = [(1, ''Root'', Some 0), (2, ''Robert'', Some 9), (3, ''Eve'', Some 0)]
   \<and> map (\<lambda>m. (m_id m, m_name m, updated_at m))
     (menus (commit example_db
        (owner_update_menus 9 (Some (\<lambda>m. m_id m = 11))
           (\<lambda>m. m\<lparr>m_name := ''Prefs'', updated_at := None\<rparr>) example_db)))
     = [(10, ''Reports'', Some 1), (11, ''Prefs'', Some 9), (12, ''Archive'', Some 1)]"
proof -
  note C10_updated_at [of 9 "\<lparr>updated_at = Some 999\<rparr>" "Some (\<lambda>p. p_id p = 2)"
      "\<lambda>p. p\<lparr>p_full_name := ''Robert'', updated_at := Some 999\<rparr>" example_db
      "Some (\<lambda>m. m_id m = 11)" "\<lambda>m. m\<lparr>m_name := ''Prefs'', updated_at := None\<rparr>" Anon]
  then show ?thesis
    unfolding example_owner_update_profiles example_owner_update_menus
    by (simp add: commit_def example_db_def where_true_def update_updated_at_column_def)
qed

end
